theory Spec2Isabelle
  imports Complex_Main
begin

section \<open>Data model of \<open>aurora_perf.py\<close>\<close>

text \<open>
  \<open>TestResult\<close> is the dataclass of the same name. Python floats are idealised as reals;
  Python's unbounded integers are \<open>int\<close>.
\<close>

record TestResult =
  success :: bool
  duration :: real
  timestamp :: real
  worker_id :: int

text \<open>
  The fields of \<open>AuroraPerformanceTester\<close> that the workload engine reads and writes.
  The field \<open>results\<close> is a \<open>deque(maxlen=1000)\<close>, oldest entry first.
\<close>

record tester =
  results :: "TestResult list"
  total_operations :: int
  successful_operations :: int
  failed_operations :: int
  start_time :: real
  running :: bool

text \<open>The errors the metrics code could raise.\<close>

datatype py_error = StatisticsError | ZeroDivisionError | IndexError | ValueError

section \<open>The library functions the metrics code calls\<close>

text \<open>
  \<open>collections.deque.append\<close> on a deque with \<open>maxlen\<close>: the item is added on the right,
  and when the deque is then longer than \<open>maxlen\<close> one item is dropped from the left.
\<close>

definition deque_append :: "nat \<Rightarrow> 'a list \<Rightarrow> 'a \<Rightarrow> 'a list" where
  "deque_append maxlen d x =
     (let d' = d @ [x] in if length d' > maxlen then tl d' else d')"

text \<open>The slice \<open>xs[-k:]\<close> for a positive \<open>k\<close>.\<close>

definition last_n :: "nat \<Rightarrow> 'a list \<Rightarrow> 'a list" where
  "last_n k xs = drop (length xs - k) xs"

text \<open>The subscript \<open>xs[i]\<close> for a non-negative \<open>i\<close>.\<close>

definition py_index :: "'a list \<Rightarrow> nat \<Rightarrow> py_error + 'a" where
  "py_index xs i = (if i < length xs then Inr (xs ! i) else Inl IndexError)"

text \<open>True division \<open>a / b\<close>.\<close>

definition py_truediv :: "real \<Rightarrow> real \<Rightarrow> py_error + real" where
  "py_truediv a b = (if b = 0 then Inl ZeroDivisionError else Inr (a / b))"

text \<open>\<open>statistics.mean\<close>: the exact sum over the number of data points.\<close>

definition mean :: "real list \<Rightarrow> py_error + real" where
  "mean data =
     (let n = length data
      in if n < 1 then Inl StatisticsError else Inr (sum_list data / real n))"

text \<open>
  \<open>statistics.quantiles(data, n=n)\<close> with its default method, \<open>exclusive\<close>. The body of its
  loop is \<open>cut_point\<close>, for the sorted data and \<open>i\<close> in \<open>range(1, n)\<close>:
  \<^verbatim>\<open>
    m = ld + 1
    j = i * m // n
    j = 1 if j < 1 else ld-1 if j > ld-1 else j
    delta = i*m - j*n
    interpolated = (data[j - 1] * (n - delta) + data[j] * delta) / n
  \<close>
\<close>

definition cut_point :: "real list \<Rightarrow> int \<Rightarrow> int \<Rightarrow> real" where
  "cut_point data n i =
     (let ld = int (length data);
          m = ld + 1;
          j0 = i * m div n;
          j = (if j0 < 1 then 1 else if j0 > ld - 1 then ld - 1 else j0);
          delta = i * m - j * n
      in (data ! nat (j - 1) * real_of_int (n - delta) + data ! nat j * real_of_int delta)
           / real_of_int n)"

definition quantiles :: "real list \<Rightarrow> int \<Rightarrow> py_error + real list" where
  "quantiles data0 n =
     (if n < 1 then Inl StatisticsError
      else let data = sort data0
           in if length data < 2 then Inl StatisticsError
              else Inr (map (cut_point data n) [1..n - 1]))"

text \<open>The builtins \<open>min\<close> and \<open>max\<close> on a list.\<close>

fun py_min :: "real list \<Rightarrow> py_error + real" where
  "py_min [] = Inl ValueError"
| "py_min (x # xs) = Inr (fold min xs x)"

fun py_max :: "real list \<Rightarrow> py_error + real" where
  "py_max [] = Inl ValueError"
| "py_max (x # xs) = Inr (fold max xs x)"

section \<open>Latency statistics\<close>

text \<open>
  The conditional expression of lines 268, 323 and 324,
  \<open>statistics.quantiles(latencies, n=n)[k] if len(latencies) > 1 else avg_latency\<close>.
\<close>

definition quantile_or_avg :: "real list \<Rightarrow> int \<Rightarrow> nat \<Rightarrow> real \<Rightarrow> py_error + real" where
  "quantile_or_avg latencies n k avg_latency =
     (if length latencies > 1
      then (case quantiles latencies n of
              Inl e \<Rightarrow> Inl e
            | Inr qs \<Rightarrow> py_index qs k)
      else Inr avg_latency)"

text \<open>Lines 265 to 270 of \<open>metrics_reporter\<close>: the pair \<open>(avg_latency, p95_latency)\<close>.\<close>

definition recent_latencies :: "TestResult list \<Rightarrow> real list" where
  "recent_latencies rs = map (\<lambda>r. duration r * 1000) (last_n 100 rs)"

definition avg_p95 :: "real list \<Rightarrow> py_error + real \<times> real" where
  "avg_p95 latencies =
     (case mean latencies of
        Inl e \<Rightarrow> Inl e
      | Inr avg_latency \<Rightarrow>
          (case quantile_or_avg latencies 20 18 avg_latency of
             Inl e \<Rightarrow> Inl e
           | Inr p95_latency \<Rightarrow> Inr (avg_latency, p95_latency)))"

definition reporter_latency :: "TestResult list \<Rightarrow> py_error + real \<times> real" where
  "reporter_latency rs = (if rs \<noteq> [] then avg_p95 (recent_latencies rs) else Inr (0, 0))"


section \<open>Throughput and success rate\<close>

text \<open>
  Lines 261 and 314, \<open>self.total_operations / elapsed if elapsed > 0 else 0\<close>, and lines 262
  and 315,
  \<open>(self.successful_operations / self.total_operations * 100) if self.total_operations > 0 else 0\<close>.
\<close>

definition throughput_of :: "int \<Rightarrow> real \<Rightarrow> py_error + real" where
  "throughput_of total_ops elapsed =
     (if elapsed > 0 then py_truediv (real_of_int total_ops) elapsed else Inr 0)"

definition success_rate_of :: "int \<Rightarrow> int \<Rightarrow> py_error + real" where
  "success_rate_of successful_ops total_ops =
     (if total_ops > 0
      then (case py_truediv (real_of_int successful_ops) (real_of_int total_ops) of
              Inl e \<Rightarrow> Inl e
            | Inr q \<Rightarrow> Inr (q * 100))
      else Inr 0)"

section \<open>One read-modify-write attempt\<close>

text \<open>
  What a call into the pool or the connection does: it returns a value or raises. A raised
  object is either an instance of \<open>Exception\<close>, which \<open>except Exception\<close> catches, or of
  \<open>BaseException\<close> only (\<open>asyncio.CancelledError\<close>, \<open>KeyboardInterrupt\<close>), which it does not.
\<close>

datatype exc = Exception | BaseExceptionOnly

datatype 'a io = Returns 'a | Raises exc

text \<open>A row of \<open>SELECT vin, entries_compressed, brand\<close>.\<close>

type_synonym row = "string \<times> string \<times> string"

text \<open>
  The behaviour of the store during one attempt, one field for each call of
  \<open>perform_operation\<close>: entering \<open>pool.acquire()\<close>, \<open>conn.fetchval\<close>, \<open>conn.fetchrow\<close>,
  \<open>os.urandom(1024)\<close> inside \<open>modify_vehicle_data\<close>, \<open>conn.execute\<close>, and leaving
  the \<open>async with\<close> block, which releases the connection.
\<close>

record store_io =
  acquire :: "unit io"
  fetchval :: "string option io"
  fetchrow :: "row option io"
  urandom :: "string io"
  execute :: "unit io"
  release :: "unit io"

text \<open>\<open>not vin\<close> for an optional string: true for \<open>None\<close> and for the empty string.\<close>

fun not_vin :: "string option \<Rightarrow> bool" where
  "not_vin None = True"
| "not_vin (Some v) = (v = [])"

text \<open>
  The body of the \<open>async with\<close> block, lines 207 to 229. \<open>start_time\<close> is the clock
  reading of line 202 and \<open>now\<close> the reading taken by the \<open>return\<close> that is reached.
\<close>

definition attempt_body :: "store_io \<Rightarrow> int \<Rightarrow> real \<Rightarrow> real \<Rightarrow> exc + TestResult" where
  "attempt_body st wid start now =
     (case fetchval st of
        Raises e \<Rightarrow> Inl e
      | Returns vin \<Rightarrow>
          if not_vin vin
          then Inr \<lparr>success = False, duration = now - start, timestamp = start, worker_id = wid\<rparr>
          else (case fetchrow st of
                  Raises e \<Rightarrow> Inl e
                | Returns r \<Rightarrow>
                    if r = None
                    then Inr \<lparr>success = False, duration = now - start, timestamp = start,
                              worker_id = wid\<rparr>
                    else (case urandom st of
                            Raises e \<Rightarrow> Inl e
                          | Returns modified_data \<Rightarrow>
                              (case execute st of
                                 Raises e \<Rightarrow> Inl e
                               | Returns u \<Rightarrow>
                                   Inr \<lparr>success = True, duration = now - start,
                                        timestamp = start, worker_id = wid\<rparr>))))"

text \<open>
  The \<open>async with self.pool.acquire() as conn\<close> statement: when entering raises, the body
  does not run; otherwise the body runs and the connection is released on every way out,
  and an error raised by the release replaces the body's result.
\<close>

definition with_connection :: "store_io \<Rightarrow> int \<Rightarrow> real \<Rightarrow> real \<Rightarrow> exc + TestResult" where
  "with_connection st wid start now =
     (case acquire st of
        Raises e \<Rightarrow> Inl e
      | Returns u \<Rightarrow>
          (let body = attempt_body st wid start now
           in case release st of Raises e \<Rightarrow> Inl e | Returns u' \<Rightarrow> body))"

text \<open>
  \<open>perform_operation\<close>, lines 200 to 232. \<open>now_exc\<close> is the clock reading taken in the
  \<open>except Exception\<close> handler. \<open>Inl\<close> is an error that leaves the function.
\<close>

definition perform_operation ::
  "store_io \<Rightarrow> int \<Rightarrow> real \<Rightarrow> real \<Rightarrow> real \<Rightarrow> exc + TestResult" where
  "perform_operation st wid start now now_exc =
     (case with_connection st wid start now of
        Inr r \<Rightarrow> Inr r
      | Inl Exception \<Rightarrow>
          Inr \<lparr>success = False, duration = now_exc - start, timestamp = start, worker_id = wid\<rparr>
      | Inl BaseExceptionOnly \<Rightarrow> Inl BaseExceptionOnly)"

section \<open>The worker\<close>

text \<open>The constructor's \<open>deque(maxlen=1000)\<close> and its initial counters.\<close>

definition results_maxlen :: nat where
  "results_maxlen = 1000"

definition init_tester :: tester where
  "init_tester = \<lparr>results = [], total_operations = 0, successful_operations = 0,
                  failed_operations = 0, start_time = 0, running = False\<rparr>"

text \<open>
  Lines 242 to 247 of \<open>worker\<close>. No \<open>await\<close> occurs between them, so under the asyncio
  scheduler the block runs without interleaving.
\<close>

definition record_result :: "tester \<Rightarrow> TestResult \<Rightarrow> tester" where
  "record_result s r =
     (let s1 = s\<lparr>results := deque_append results_maxlen (results s) r\<rparr>;
          s2 = s1\<lparr>total_operations := total_operations s1 + 1\<rparr>
      in if success r
         then s2\<lparr>successful_operations := successful_operations s2 + 1\<rparr>
         else s2\<lparr>failed_operations := failed_operations s2 + 1\<rparr>)"

text \<open>The state after the attempts of a run have been recorded, in the order of recording.\<close>

definition record_all :: "tester \<Rightarrow> TestResult list \<Rightarrow> tester" where
  "record_all s rs = foldl record_result s rs"

text \<open>
  What one pass of the worker's loop meets: the value of \<open>self.running\<close> and the clock
  reading at the loop test of line 238, then the clock readings and the store behaviour of
  the attempt.
\<close>

record iteration =
  seen_running :: bool
  seen_now :: real
  op_start :: real
  op_now :: real
  op_now_exc :: real
  op_store :: store_io

text \<open>
  \<open>worker\<close>, lines 234 to 251, for the configured duration \<open>dur\<close>. The list is what the
  passes of the loop meet, in order; \<open>None\<close> says the loop is still running when the list
  ends. The result is the state, the worker's operation count and the error that ended the
  worker, if any.
\<close>

fun worker :: "int \<Rightarrow> int \<Rightarrow> iteration list \<Rightarrow> tester \<Rightarrow> nat
                 \<Rightarrow> (tester \<times> nat \<times> exc option) option" where
  "worker dur wid [] s operations = None"
| "worker dur wid (it # its) s operations =
     (if seen_running it \<and> seen_now it < start_time s + real_of_int dur
      then (case perform_operation (op_store it) wid (op_start it) (op_now it) (op_now_exc it) of
              Inl e \<Rightarrow> Some (s, operations, Some e)
            | Inr r \<Rightarrow> worker dur wid its (record_result s r) (operations + 1))
      else Some (s, operations, None))"

section \<open>The metrics reporter\<close>

record MetricsLine =
  ml_total_operations :: int
  ml_success_rate :: real
  ml_throughput :: real
  ml_avg_latency :: real
  ml_p95_latency :: real
  ml_elapsed :: real

text \<open>Lines 260 to 275: the values of one printed line, at clock reading \<open>now\<close>.\<close>

definition metrics_line :: "tester \<Rightarrow> real \<Rightarrow> py_error + MetricsLine" where
  "metrics_line s now =
     (let elapsed = now - start_time s
      in case throughput_of (total_operations s) elapsed of
           Inl e \<Rightarrow> Inl e
         | Inr throughput \<Rightarrow>
             (case success_rate_of (successful_operations s) (total_operations s) of
                Inl e \<Rightarrow> Inl e
              | Inr success_rate \<Rightarrow>
                  (case reporter_latency (results s) of
                     Inl e \<Rightarrow> Inl e
                   | Inr (avg_latency, p95_latency) \<Rightarrow>
                       Inr \<lparr>ml_total_operations = total_operations s,
                            ml_success_rate = success_rate,
                            ml_throughput = throughput,
                            ml_avg_latency = avg_latency,
                            ml_p95_latency = p95_latency,
                            ml_elapsed = elapsed\<rparr>)))"

text \<open>
  What one pass of the reporter's loop meets: \<open>self.running\<close> at the loop test of line 255,
  \<open>self.running\<close> after the sleep (line 257), and the clock and the shared fields at
  line 260.
\<close>

record tick =
  running_at_test :: bool
  running_after_sleep :: bool
  tick_now :: real
  tick_tester :: tester

text \<open>
  \<open>metrics_reporter\<close>, lines 253 to 275, with the lines printed so far. \<open>None\<close> says the
  loop is still running when the list ends.
\<close>

fun metrics_reporter :: "tick list \<Rightarrow> MetricsLine list
                           \<Rightarrow> (MetricsLine list \<times> py_error option) option" where
  "metrics_reporter [] printed = None"
| "metrics_reporter (t # ts) printed =
     (if \<not> running_at_test t then Some (printed, None)
      else if \<not> running_after_sleep t then Some (printed, None)
      else (case metrics_line (tick_tester t) (tick_now t) of
              Inl e \<Rightarrow> Some (printed, Some e)
            | Inr l \<Rightarrow> metrics_reporter ts (printed @ [l])))"

section \<open>The final report\<close>

record FinalReport =
  fr_total_operations :: int
  fr_successful_operations :: int
  fr_failed_operations :: int
  fr_success_rate :: real
  fr_throughput :: real
  fr_elapsed :: real
  fr_avg_latency :: real
  fr_min_latency :: real
  fr_max_latency :: real
  fr_p95_latency :: real
  fr_p99_latency :: real

text \<open>Line 319: the latencies of every entry of the deque.\<close>

definition latencies_of :: "TestResult list \<Rightarrow> real list" where
  "latencies_of rs = map (\<lambda>r. duration r * 1000) rs"

text \<open>Lines 318 to 326: average, minimum, maximum, 95th and 99th percentile.\<close>

definition final_latency ::
  "TestResult list \<Rightarrow> py_error + real \<times> real \<times> real \<times> real \<times> real" where
  "final_latency rs =
     (if rs \<noteq> []
      then (let latencies = latencies_of rs
            in case mean latencies of
                 Inl e \<Rightarrow> Inl e
               | Inr avg_latency \<Rightarrow>
                   (case py_min latencies of
                      Inl e \<Rightarrow> Inl e
                    | Inr min_latency \<Rightarrow>
                        (case py_max latencies of
                           Inl e \<Rightarrow> Inl e
                         | Inr max_latency \<Rightarrow>
                             (case quantile_or_avg latencies 20 18 avg_latency of
                                Inl e \<Rightarrow> Inl e
                              | Inr p95_latency \<Rightarrow>
                                  (case quantile_or_avg latencies 100 98 avg_latency of
                                     Inl e \<Rightarrow> Inl e
                                   | Inr p99_latency \<Rightarrow>
                                       Inr (avg_latency, min_latency, max_latency,
                                            p95_latency, p99_latency))))))
      else Inr (0, 0, 0, 0, 0))"

text \<open>\<open>print_final_results\<close>, lines 311 to 348, at clock reading \<open>now\<close>.\<close>

definition print_final_results :: "tester \<Rightarrow> real \<Rightarrow> py_error + FinalReport" where
  "print_final_results s now =
     (let elapsed = now - start_time s
      in case throughput_of (total_operations s) elapsed of
           Inl e \<Rightarrow> Inl e
         | Inr throughput \<Rightarrow>
             (case success_rate_of (successful_operations s) (total_operations s) of
                Inl e \<Rightarrow> Inl e
              | Inr success_rate \<Rightarrow>
                  (case final_latency (results s) of
                     Inl e \<Rightarrow> Inl e
                   | Inr (avg_latency, min_latency, max_latency, p95_latency, p99_latency) \<Rightarrow>
                       Inr \<lparr>fr_total_operations = total_operations s,
                            fr_successful_operations = successful_operations s,
                            fr_failed_operations = failed_operations s,
                            fr_success_rate = success_rate,
                            fr_throughput = throughput,
                            fr_elapsed = elapsed,
                            fr_avg_latency = avg_latency,
                            fr_min_latency = min_latency,
                            fr_max_latency = max_latency,
                            fr_p95_latency = p95_latency,
                            fr_p99_latency = p99_latency\<rparr>)))"

section \<open>The end of the run\<close>

datatype printed_item = Metrics MetricsLine | Final FinalReport

text \<open>
  The \<open>finally\<close> block of \<open>run_test\<close>, lines 303 to 309, as far as the output goes:
  \<open>asyncio.gather\<close> returns once every task has returned (with \<open>return_exceptions=True\<close>
  an error that ended a task is collected, not raised), and only then is the final
  report printed. \<open>s\<close> is the state the workers left and \<open>now\<close> the clock reading of line
  313. \<open>None\<close> says the reporter has not returned, so the gather is still waiting.
\<close>

definition run_test_finally :: "tick list \<Rightarrow> tester \<Rightarrow> real \<Rightarrow> (printed_item list \<times> py_error option) option" where
  "run_test_finally ticks s now =
     (case metrics_reporter ticks [] of
        None \<Rightarrow> None
      | Some (printed, err) \<Rightarrow>
          (case print_final_results s now of
             Inl e \<Rightarrow> Some (map Metrics printed, Some e)
           | Inr fr \<Rightarrow> Some (map Metrics printed @ [Final fr], None)))"

section \<open>Conditions on what a task meets\<close>

text \<open>A call that returns, or raises an instance of \<open>Exception\<close>.\<close>

fun ordinary :: "'a io \<Rightarrow> bool" where
  "ordinary (Returns v) = True"
| "ordinary (Raises e) = (e = Exception)"

text \<open>A store whose errors are all instances of \<open>Exception\<close>.\<close>

definition raises_only_Exception :: "store_io \<Rightarrow> bool" where
  "raises_only_Exception st =
     (ordinary (acquire st) \<and> ordinary (fetchval st) \<and> ordinary (fetchrow st)
      \<and> ordinary (urandom st) \<and> ordinary (execute st) \<and> ordinary (release st))"

text \<open>Some call of the attempt raises.\<close>

definition some_call_raises :: "store_io \<Rightarrow> bool" where
  "some_call_raises st =
     (acquire st = Raises Exception \<or> fetchval st = Raises Exception
      \<or> fetchrow st = Raises Exception \<or> urandom st = Raises Exception
      \<or> execute st = Raises Exception \<or> release st = Raises Exception)"

text \<open>
  A store without keys: the connection is handed out and released, and the random key
  selection finds no row.
\<close>

definition no_keys :: "store_io \<Rightarrow> bool" where
  "no_keys st =
     (acquire st = Returns () \<and> fetchval st = Returns None \<and> release st = Returns ())"

text \<open>
  The stop condition as a pass of the worker's loop observes it: \<open>running\<close> is false, or
  the clock is at or past the start time plus the configured duration.
\<close>

definition stop_seen :: "int \<Rightarrow> tester \<Rightarrow> iteration \<Rightarrow> bool" where
  "stop_seen dur s it =
     (seen_running it = False \<or> seen_now it \<ge> start_time s + real_of_int dur)"

text \<open>The stop flag as a pass of the reporter's loop observes it, before or after its sleep.\<close>

definition stop_flag_seen :: "tick \<Rightarrow> bool" where
  "stop_flag_seen t = (running_at_test t = False \<or> running_after_sleep t = False)"

section \<open>Sample inputs\<close>

text \<open>A store that serves one attempt, one without keys, and one whose update fails.\<close>

definition store_ok :: store_io where
  "store_ok = \<lparr>acquire = Returns (), fetchval = Returns (Some ''WP0AB2A79BL000001''),
                fetchrow = Returns (Some (''WP0AB2A79BL000001'', ''old'', ''Porsche'')),
                urandom = Returns ''new'', execute = Returns (), release = Returns ()\<rparr>"

definition store_empty :: store_io where
  "store_empty = store_ok\<lparr>fetchval := Returns None\<rparr>"

definition store_failing :: store_io where
  "store_failing = store_ok\<lparr>execute := Raises Exception\<rparr>"

text \<open>
  A pass of the worker's loop that reads \<open>running\<close> as \<open>r\<close> at time \<open>t\<close> and whose attempt
  would take 10 ms, and a pass of the reporter's loop.
\<close>

definition pass_at :: "bool \<Rightarrow> real \<Rightarrow> store_io \<Rightarrow> iteration" where
  "pass_at r t st = \<lparr>seen_running = r, seen_now = t, op_start = t, op_now = t + 1 / 100,
                     op_now_exc = t + 1 / 100, op_store = st\<rparr>"

definition tick_at :: "bool \<Rightarrow> bool \<Rightarrow> real \<Rightarrow> tester \<Rightarrow> tick" where
  "tick_at r r' t s = \<lparr>running_at_test = r, running_after_sleep = r', tick_now = t,
                       tick_tester = s\<rparr>"

text \<open>
  A run of 1001 recorded attempts: one slow failure of 5 s, then a thousand successes of
  1 ms each.
\<close>

definition long_run :: "TestResult list" where
  "long_run = \<lparr>success = False, duration = 5, timestamp = 0, worker_id = 0\<rparr>
     # replicate 1000 \<lparr>success = True, duration = 1 / 1000, timestamp = 5, worker_id = 0\<rparr>"



section \<open>The result buffer\<close>

lemma deque_append_drop:
  "deque_append C (drop (length xs - C) xs) x = drop (length (xs @ [x]) - C) (xs @ [x])"
proof (cases "length xs < C")
  case True
  then show ?thesis by (simp add: deque_append_def)
next
  case False
  then have le: "C \<le> length xs" by simp
  show ?thesis
  proof (cases "C = 0")
    case True
    then show ?thesis by (simp add: deque_append_def)
  next
    case False
    with le have ne: "drop (length xs - C) xs \<noteq> []" by simp
    from le have "Suc (length xs) - C = Suc (length xs - C)" by simp
    with le ne show ?thesis
      by (simp add: deque_append_def tl_drop drop_Suc)
  qed
qed

lemma foldl_deque_append:
  "foldl (deque_append C) [] xs = drop (length xs - C) xs"
proof (induction xs rule: rev_induct)
  case Nil
  then show ?case by simp
next
  case (snoc x xs)
  then show ?case using deque_append_drop [of C xs x] by simp
qed

lemma results_record_result:
  "results (record_result s r) = deque_append results_maxlen (results s) r"
  by (simp add: record_result_def Let_def)

lemma results_record_all_gen:
  "results (foldl record_result s rs) = foldl (deque_append results_maxlen) (results s) rs"
  by (induction rs arbitrary: s) (simp_all add: results_record_result)

lemma results_record_all:
  "results (record_all init_tester rs) = drop (length rs - 1000) rs"
  using foldl_deque_append [of results_maxlen rs]
  by (simp add: record_all_def results_record_all_gen init_tester_def results_maxlen_def)

lemma start_time_record_all: "start_time (record_all s rs) = start_time s"
  unfolding record_all_def
  by (induction rs arbitrary: s) (simp_all add: record_result_def Let_def)

lemma results_record_all_fresh:
  "results s = [] \<Longrightarrow> results (record_all s rs) = drop (length rs - 1000) rs"
  using foldl_deque_append [of results_maxlen rs]
  by (simp add: record_all_def results_record_all_gen results_maxlen_def)

text \<open>
  C2: after the appends \<open>xs\<close> to an empty deque of capacity \<open>C\<close>, the deque has
  \<open>min (length xs) C\<close> entries, they are the most recently appended ones in the order of
  appending, and after every prefix of the appends the length is at most \<open>C\<close>. The
  tester's own buffer is the case \<open>C = 1000\<close>.
\<close>

theorem C2_result_buffer:
  "length (foldl (deque_append C) [] xs) = min (length xs) C
   \<and> foldl (deque_append C) [] xs = drop (length xs - C) xs
   \<and> (\<forall>k. length (foldl (deque_append C) [] (take k xs)) \<le> C)
   \<and> results (record_all init_tester rs) = drop (length rs - 1000) rs
   \<and> length (results (record_all init_tester rs)) = min (length rs) 1000"
  by (auto simp add: foldl_deque_append results_record_all)

theorem C2_result_buffer_witness:
  "foldl (deque_append 2) [] [1, 2, 3 :: nat] = [2, 3]"
proof -
  have "foldl (deque_append 2) [] [1, 2, 3 :: nat] = drop (length [1, 2, 3 :: nat] - 2) [1, 2, 3]"
    using C2_result_buffer [of 2 "[1, 2, 3 :: nat]" "[]"] by blast
  then show ?thesis by simp
qed

section \<open>The aggregate counters\<close>

lemma counters_record_result:
  "total_operations (record_result s r) = total_operations s + 1"
  "successful_operations (record_result s r)
     = successful_operations s + (if success r then 1 else 0)"
  "failed_operations (record_result s r) = failed_operations s + (if success r then 0 else 1)"
  by (simp_all add: record_result_def Let_def)

lemma counters_record_all:
  "total_operations (record_all s rs) = total_operations s + int (length rs)"
  "successful_operations (record_all s rs)
     = successful_operations s + int (length (filter success rs))"
  "failed_operations (record_all s rs)
     = failed_operations s + int (length (filter (\<lambda>r. \<not> success r) rs))"
  unfolding record_all_def
  by (induction rs arbitrary: s) (simp_all add: counters_record_result)

lemma length_filter_split:
  "length xs = length (filter P xs) + length (filter (\<lambda>x. \<not> P x) xs)"
  by (induction xs) simp_all

text \<open>
  C3: after the attempts \<open>rs\<close> have been recorded from the initial state, the total equals
  successes plus failures; recording one attempt adds one to the total and one to exactly
  one of the two other counters; and no counter ever decreases.
\<close>

theorem C3_counters:
  "total_operations (record_all init_tester rs)
     = successful_operations (record_all init_tester rs)
       + failed_operations (record_all init_tester rs)
   \<and> total_operations (record_result s r) = total_operations s + 1
   \<and> (if success r
      then successful_operations (record_result s r) = successful_operations s + 1
         \<and> failed_operations (record_result s r) = failed_operations s
      else failed_operations (record_result s r) = failed_operations s + 1
         \<and> successful_operations (record_result s r) = successful_operations s)
   \<and> total_operations s \<le> total_operations (record_all s rs)
   \<and> successful_operations s \<le> successful_operations (record_all s rs)
   \<and> failed_operations s \<le> failed_operations (record_all s rs)"
  using length_filter_split [of rs success]
  by (simp add: counters_record_all counters_record_result init_tester_def)

theorem C3_counters_witness:
  "total_operations (record_all init_tester
     [\<lparr>success = True, duration = 1, timestamp = 0, worker_id = 0\<rparr>,
      \<lparr>success = False, duration = 2, timestamp = 1, worker_id = 1\<rparr>]) = 2"
proof -
  let ?rs = "[\<lparr>success = True, duration = 1, timestamp = 0, worker_id = 0\<rparr>,
              \<lparr>success = False, duration = 2, timestamp = 1, worker_id = 1\<rparr>]"
  have "total_operations (record_all init_tester ?rs)
          = successful_operations (record_all init_tester ?rs)
            + failed_operations (record_all init_tester ?rs)"
    using C3_counters [of ?rs init_tester "hd ?rs"] by blast
  then show ?thesis by (simp add: counters_record_all init_tester_def)
qed

section \<open>The metrics never raise\<close>

lemma throughput_of_Inr:
  "throughput_of t e = Inr (if e > 0 then real_of_int t / e else 0)"
  by (simp add: throughput_of_def py_truediv_def)

lemma success_rate_of_Inr:
  "success_rate_of a t = Inr (if t > 0 then real_of_int a / real_of_int t * 100 else 0)"
  by (simp add: success_rate_of_def py_truediv_def)

lemma mean_Inr: "xs \<noteq> [] \<Longrightarrow> mean xs = Inr (sum_list xs / real (length xs))"
  by (cases xs) (simp_all add: mean_def)

lemma quantile_or_avg_20:
  "quantile_or_avg xs 20 18 a = Inr (if length xs > 1 then cut_point (sort xs) 20 19 else a)"
  by (simp add: quantile_or_avg_def quantiles_def py_index_def nth_upto)

lemma quantile_or_avg_100:
  "quantile_or_avg xs 100 98 a = Inr (if length xs > 1 then cut_point (sort xs) 100 99 else a)"
  by (simp add: quantile_or_avg_def quantiles_def py_index_def nth_upto)

lemma py_min_Inr: "xs \<noteq> [] \<Longrightarrow> py_min xs = Inr (Min (set xs))"
  by (cases xs) (simp_all add: Min.set_eq_fold [symmetric])

lemma py_max_Inr: "xs \<noteq> [] \<Longrightarrow> py_max xs = Inr (Max (set xs))"
  by (cases xs) (simp_all add: Max.set_eq_fold [symmetric])

lemma avg_p95_Inr:
  "xs \<noteq> [] \<Longrightarrow> avg_p95 xs = Inr (sum_list xs / real (length xs),
      if length xs > 1 then cut_point (sort xs) 20 19 else sum_list xs / real (length xs))"
  by (simp add: avg_p95_def mean_Inr quantile_or_avg_20)

lemma recent_latencies_nonempty: "rs \<noteq> [] \<Longrightarrow> recent_latencies rs \<noteq> []"
  by (cases rs) (simp_all add: recent_latencies_def last_n_def)

lemma reporter_latency_Inr: "\<exists>a p. reporter_latency rs = Inr (a, p)"
  by (cases "rs = []") (simp_all add: reporter_latency_def avg_p95_Inr recent_latencies_nonempty)

lemma final_latency_Inr:
  "rs \<noteq> [] \<Longrightarrow> final_latency rs =
     Inr (sum_list (latencies_of rs) / real (length rs),
          Min (set (latencies_of rs)), Max (set (latencies_of rs)),
          (if length rs > 1 then cut_point (sort (latencies_of rs)) 20 19
           else sum_list (latencies_of rs) / real (length rs)),
          (if length rs > 1 then cut_point (sort (latencies_of rs)) 100 99
           else sum_list (latencies_of rs) / real (length rs)))"
  by (simp add: final_latency_def Let_def mean_Inr py_min_Inr py_max_Inr
      quantile_or_avg_20 quantile_or_avg_100 latencies_of_def)

lemma final_latency_total: "\<exists>v. final_latency rs = Inr v"
  by (cases "rs = []") (simp_all add: final_latency_Inr, simp add: final_latency_def)

lemma metrics_line_total: "\<exists>l. metrics_line s now = Inr l"
proof -
  obtain a p where "reporter_latency (results s) = Inr (a, p)"
    using reporter_latency_Inr by blast
  then show ?thesis
    by (simp add: metrics_line_def Let_def throughput_of_Inr success_rate_of_Inr)
qed

lemma print_final_results_total: "\<exists>fr. print_final_results s now = Inr fr"
proof -
  obtain v where "final_latency (results s) = Inr v"
    using final_latency_total by blast
  then show ?thesis
    by (cases v) (simp add: print_final_results_def Let_def throughput_of_Inr success_rate_of_Inr)
qed

text \<open>
  C9: the reporter's line and the final report are computed without an error for every
  state and clock reading; neither quotient can raise \<open>ZeroDivisionError\<close>; the throughput
  is 0 when the elapsed time is not positive and the success rate is 0 when no operation
  has been counted, in both reports.
\<close>

theorem C9_divisions_guarded:
  "(\<exists>l. metrics_line s now = Inr l)
   \<and> (\<exists>fr. print_final_results s now = Inr fr)
   \<and> throughput_of t e \<noteq> Inl ZeroDivisionError
   \<and> success_rate_of a t \<noteq> Inl ZeroDivisionError
   \<and> (e \<le> 0 \<longrightarrow> throughput_of t e = Inr 0)
   \<and> success_rate_of a 0 = Inr 0
   \<and> (now - start_time s \<le> 0 \<longrightarrow>
        (\<forall>l. metrics_line s now = Inr l \<longrightarrow> ml_throughput l = 0)
        \<and> (\<forall>fr. print_final_results s now = Inr fr \<longrightarrow> fr_throughput fr = 0))
   \<and> (total_operations s = 0 \<longrightarrow>
        (\<forall>l. metrics_line s now = Inr l \<longrightarrow> ml_success_rate l = 0)
        \<and> (\<forall>fr. print_final_results s now = Inr fr \<longrightarrow> fr_success_rate fr = 0))"
  using metrics_line_total [of s now] print_final_results_total [of s now]
  by (auto simp add: throughput_of_Inr success_rate_of_Inr metrics_line_def print_final_results_def
      Let_def split: sum.splits prod.splits)

theorem C9_divisions_guarded_witness:
  "throughput_of 5 0 = Inr 0
   \<and> (\<exists>l. metrics_line init_tester 0 = Inr l \<and> ml_throughput l = 0 \<and> ml_success_rate l = 0)
   \<and> (\<exists>fr. print_final_results init_tester 0 = Inr fr
          \<and> fr_throughput fr = 0 \<and> fr_success_rate fr = 0)"
proof -
  have z: "(0::real) - start_time init_tester \<le> 0" "total_operations init_tester = 0"
    by (simp_all add: init_tester_def)
  show ?thesis
    using C9_divisions_guarded [of init_tester 0 5 0 0] z by blast
qed

section \<open>Percentiles\<close>

lemma cut_point_explicit:
  assumes "1 < length xs"
  shows "cut_point (sort xs) n k =
     (let s = sort xs;
          ld = int (length xs);
          j = max 1 (min (ld - 1) (k * (ld + 1) div n));
          delta = k * (ld + 1) - j * n
      in (s ! nat (j - 1) * real_of_int (n - delta) + s ! nat j * real_of_int delta)
           / real_of_int n)"
proof -
  have j: "(if k * (int (length xs) + 1) div n < 1 then 1
            else if k * (int (length xs) + 1) div n > int (length xs) - 1
                 then int (length xs) - 1
                 else k * (int (length xs) + 1) div n)
           = max 1 (min (int (length xs) - 1) (k * (int (length xs) + 1) div n))"
    using assms by (simp add: max_def min_def)
  show ?thesis
    unfolding cut_point_def Let_def length_sort j by (rule refl)
qed

lemma cut_point_p95:
  "1 < length ys \<Longrightarrow>
   cut_point (sort ys) 20 19 =
     (let s = sort ys;
          ld = int (length ys);
          j = max 1 (min (ld - 1) (19 * (ld + 1) div 20));
          delta = 19 * (ld + 1) - j * 20
      in (s ! nat (j - 1) * real_of_int (20 - delta) + s ! nat j * real_of_int delta) / 20)"
  using cut_point_explicit [of ys 20 19] by simp

lemma cut_point_p99:
  "1 < length ys \<Longrightarrow>
   cut_point (sort ys) 100 99 =
     (let s = sort ys;
          ld = int (length ys);
          j = max 1 (min (ld - 1) (99 * (ld + 1) div 100));
          delta = 99 * (ld + 1) - j * 100
      in (s ! nat (j - 1) * real_of_int (100 - delta) + s ! nat j * real_of_int delta) / 100)"
  using cut_point_explicit [of ys 100 99] by simp

lemma final_latency_explicit:
  "rs \<noteq> [] \<Longrightarrow> final_latency rs =
     Inr (sum_list (map (\<lambda>r. duration r * 1000) rs) / real (length rs),
          Min (set (map (\<lambda>r. duration r * 1000) rs)),
          Max (set (map (\<lambda>r. duration r * 1000) rs)),
          (if length rs > 1 then cut_point (sort (map (\<lambda>r. duration r * 1000) rs)) 20 19
           else sum_list (map (\<lambda>r. duration r * 1000) rs) / real (length rs)),
          (if length rs > 1 then cut_point (sort (map (\<lambda>r. duration r * 1000) rs)) 100 99
           else sum_list (map (\<lambda>r. duration r * 1000) rs) / real (length rs)))"
  using final_latency_Inr [of rs] by (simp add: latencies_of_def)






section \<open>The attempt, case by case\<close>

lemma attempt_body_cases:
  "(\<exists>e. attempt_body st wid start now = Inl e \<and> (fetchval st = Raises e
        \<or> fetchrow st = Raises e \<or> urandom st = Raises e \<or> execute st = Raises e))
   \<or> attempt_body st wid start now
        = Inr \<lparr>success = False, duration = now - start, timestamp = start, worker_id = wid\<rparr>
      \<and> ((\<exists>v. fetchval st = Returns v \<and> not_vin v) \<or> fetchrow st = Returns None)
   \<or> attempt_body st wid start now
        = Inr \<lparr>success = True, duration = now - start, timestamp = start, worker_id = wid\<rparr>
      \<and> (\<exists>v. fetchval st = Returns v \<and> \<not> not_vin v) \<and> (\<exists>w. fetchrow st = Returns (Some w))
      \<and> (\<exists>b. urandom st = Returns b) \<and> execute st = Returns ()"
proof (cases "fetchval st")
  case (Raises e)
  then show ?thesis by (simp add: attempt_body_def)
next
  case fv: (Returns vin)
  show ?thesis
  proof (cases "not_vin vin")
    case True
    with fv show ?thesis by (simp add: attempt_body_def)
  next
    case nv: False
    show ?thesis
    proof (cases "fetchrow st")
      case (Raises e)
      with fv nv show ?thesis by (simp add: attempt_body_def)
    next
      case fr: (Returns r)
      show ?thesis
      proof (cases r)
        case None
        with fv nv fr show ?thesis by (simp add: attempt_body_def)
      next
        case (Some w)
        show ?thesis
        proof (cases "urandom st")
          case (Raises e)
          with fv nv fr Some show ?thesis by (simp add: attempt_body_def)
        next
          case ur: (Returns b)
          show ?thesis
          proof (cases "execute st")
            case (Raises e)
            with fv nv fr Some ur show ?thesis by (simp add: attempt_body_def)
          next
            case (Returns u)
            with fv nv fr Some ur show ?thesis by (cases w) (simp add: attempt_body_def)
          qed
        qed
      qed
    qed
  qed
qed

lemma with_connection_cases:
  "(\<exists>e. with_connection st wid start now = Inl e
        \<and> (acquire st = Raises e \<or> release st = Raises e \<or> fetchval st = Raises e
           \<or> fetchrow st = Raises e \<or> urandom st = Raises e \<or> execute st = Raises e))
   \<or> with_connection st wid start now
        = Inr \<lparr>success = False, duration = now - start, timestamp = start, worker_id = wid\<rparr>
      \<and> acquire st = Returns () \<and> release st = Returns ()
      \<and> ((\<exists>v. fetchval st = Returns v \<and> not_vin v) \<or> fetchrow st = Returns None)
   \<or> with_connection st wid start now
        = Inr \<lparr>success = True, duration = now - start, timestamp = start, worker_id = wid\<rparr>
      \<and> acquire st = Returns () \<and> release st = Returns ()
      \<and> (\<exists>v. fetchval st = Returns v \<and> \<not> not_vin v) \<and> (\<exists>w. fetchrow st = Returns (Some w))
      \<and> (\<exists>b. urandom st = Returns b) \<and> execute st = Returns ()"
proof (cases "acquire st")
  case (Raises e)
  then show ?thesis by (simp add: with_connection_def)
next
  case acq: (Returns u)
  show ?thesis
  proof (cases "release st")
    case (Raises e)
    with acq show ?thesis by (simp add: with_connection_def)
  next
    case (Returns u')
    with acq have "with_connection st wid start now = attempt_body st wid start now"
      by (simp add: with_connection_def)
    with acq Returns attempt_body_cases [of st wid start now] show ?thesis
      by (elim disjE exE conjE) (simp_all, metis surj_pair)
  qed
qed


lemma not_vin_Some: "\<not> not_vin v \<Longrightarrow> \<exists>y. v = Some y"
  by (cases v) simp_all

lemma perform_operation_ordinary:
  "raises_only_Exception st \<Longrightarrow>
     \<exists>r. perform_operation st wid start now now_exc = Inr r
        \<and> (fetchval st = Returns None \<longrightarrow> \<not> success r)
        \<and> (fetchrow st = Returns None \<longrightarrow> \<not> success r)
        \<and> (some_call_raises st \<longrightarrow> \<not> success r)"
  using with_connection_cases [of st wid start now]
  by (elim disjE exE conjE)
     (auto simp add: perform_operation_def raises_only_Exception_def some_call_raises_def
       split: exc.splits dest: not_vin_Some)

lemma perform_operation_no_keys:
  "no_keys st \<Longrightarrow> perform_operation st wid start now now_exc
     = Inr \<lparr>success = False, duration = now - start, timestamp = start, worker_id = wid\<rparr>"
  by (simp add: no_keys_def perform_operation_def with_connection_def attempt_body_def)

text \<open>
  An error that is not an instance of \<open>Exception\<close>, such as the cancellation of the task,
  is not caught by the handler.
\<close>

lemma perform_operation_BaseException:
  "acquire st = Raises BaseExceptionOnly \<Longrightarrow>
     perform_operation st wid start now now_exc = Inl BaseExceptionOnly"
  by (simp add: perform_operation_def with_connection_def)

lemma sample_stores:
  "raises_only_Exception store_ok" "raises_only_Exception store_failing"
  "raises_only_Exception store_empty" "no_keys store_empty" "some_call_raises store_failing"
  by (simp_all add: raises_only_Exception_def no_keys_def some_call_raises_def store_ok_def
      store_failing_def store_empty_def)


section \<open>The worker's loop\<close>

lemma stop_seen_record_result [simp]:
  "stop_seen dur (record_result s r) it = stop_seen dur s it"
  by (simp add: stop_seen_def record_result_def Let_def)

lemma worker_run:
  "\<forall>i \<in> set pre. \<not> stop_seen dur s i \<Longrightarrow>
   map (\<lambda>i. perform_operation (op_store i) wid (op_start i) (op_now i) (op_now_exc i)) pre
     = map Inr rs \<Longrightarrow>
   stop_seen dur s it \<Longrightarrow>
   worker dur wid (pre @ it # rest) s n = Some (record_all s rs, n + length pre, None)"
proof (induction pre arbitrary: s n rs)
  case Nil
  then show ?case by (auto simp add: stop_seen_def record_all_def)
next
  case (Cons i pre)
  from Cons.prems(2) obtain r rs' where rs: "rs = r # rs'"
    and r: "perform_operation (op_store i) wid (op_start i) (op_now i) (op_now_exc i) = Inr r"
    and rest: "map (\<lambda>i. perform_operation (op_store i) wid (op_start i) (op_now i) (op_now_exc i)) pre
      = map Inr rs'"
    by (cases rs) auto
  from Cons.prems(1) have go: "seen_running i \<and> seen_now i < start_time s + real_of_int dur"
    by (auto simp add: stop_seen_def)
  have "worker dur wid (pre @ it # rest) (record_result s r) (n + 1)
          = Some (record_all (record_result s r) rs', (n + 1) + length pre, None)"
    using Cons.prems(1) Cons.prems(3) rest by (intro Cons.IH) simp_all
  with go r rs show ?case by (simp add: record_all_def)
qed

lemma ordinary_results:
  "\<forall>i \<in> set pre. raises_only_Exception (op_store i) \<Longrightarrow>
     \<exists>rs. map (\<lambda>i. perform_operation (op_store i) wid (op_start i) (op_now i) (op_now_exc i)) pre
            = map Inr rs"
proof (induction pre)
  case Nil
  then show ?case by simp
next
  case (Cons i pre)
  then obtain rs where
    "map (\<lambda>i. perform_operation (op_store i) wid (op_start i) (op_now i) (op_now_exc i)) pre
       = map Inr rs" by auto
  moreover obtain r where
    "perform_operation (op_store i) wid (op_start i) (op_now i) (op_now_exc i) = Inr r"
    using Cons.prems perform_operation_ordinary [of "op_store i"] by fastforce
  ultimately have
    "map (\<lambda>i. perform_operation (op_store i) wid (op_start i) (op_now i) (op_now_exc i)) (i # pre)
       = map Inr (r # rs)" by simp
  then show ?case by blast
qed

lemma worker_never_errors:
  "\<forall>i \<in> set its. raises_only_Exception (op_store i) \<Longrightarrow>
   worker dur wid its s n = Some (s', n', err) \<Longrightarrow> err = None"
proof (induction its arbitrary: s n)
  case Nil
  then show ?case by simp
next
  case (Cons i its)
  obtain r where r:
    "perform_operation (op_store i) wid (op_start i) (op_now i) (op_now_exc i) = Inr r"
    using Cons.prems(1) perform_operation_ordinary [of "op_store i"] by fastforce
  show ?case
  proof (cases "seen_running i \<and> seen_now i < start_time s + real_of_int dur")
    case True
    with r Cons.prems(2)
    have "worker dur wid its (record_result s r) (n + 1) = Some (s', n', err)" by simp
    with Cons.IH Cons.prems(1) show ?thesis by simp
  next
    case False
    with Cons.prems(2) show ?thesis by auto
  qed
qed

lemma worker_stops_any:
  "\<forall>i \<in> set pre. \<not> stop_seen dur s i \<Longrightarrow> stop_seen dur s it \<Longrightarrow>
   worker dur wid (pre @ it # rest) s n = worker dur wid (pre @ [it]) s n
   \<and> worker dur wid (pre @ it # rest) s n \<noteq> None"
proof (induction pre arbitrary: s n)
  case Nil
  then show ?case by (auto simp add: stop_seen_def)
next
  case (Cons i pre)
  then have go: "seen_running i \<and> seen_now i < start_time s + real_of_int dur"
    by (auto simp add: stop_seen_def)
  show ?case
  proof (cases "perform_operation (op_store i) wid (op_start i) (op_now i) (op_now_exc i)")
    case (Inl e)
    with go show ?thesis by simp
  next
    case (Inr r)
    have ih: "worker dur wid (pre @ it # rest) (record_result s r) (n + 1)
            = worker dur wid (pre @ [it]) (record_result s r) (n + 1)
          \<and> worker dur wid (pre @ it # rest) (record_result s r) (n + 1) \<noteq> None"
      using Cons.prems by (intro Cons.IH) simp_all
    have step: "worker dur wid ((i # pre) @ tl) s n
                     = worker dur wid (pre @ tl) (record_result s r) (n + 1)" for tl
      using go Inr by simp
    show ?thesis unfolding step by (rule ih)
  qed
qed

text \<open>
  C4: whatever the store does during an attempt, as long as what it raises are instances
  of \<open>Exception\<close>, \<open>perform_operation\<close> returns an outcome; the outcome has
  \<open>success = False\<close> when no key is found, when the record has vanished, and when any
  call raises. A worker whose attempts meet only such stores never ends by an error, and
  a failed attempt does not end its loop: after recording the outcome the worker goes on
  with the next pass, so that up to the pass that observes the stop condition every pass
  makes its attempt.
\<close>

theorem C4_attempt_failures_contained:
  "(raises_only_Exception st \<longrightarrow>
      (\<exists>r. perform_operation st wid start now now_exc = Inr r
         \<and> (fetchval st = Returns None \<longrightarrow> \<not> success r)
         \<and> (fetchrow st = Returns None \<longrightarrow> \<not> success r)
         \<and> (some_call_raises st \<longrightarrow> \<not> success r)))
   \<and> ((\<forall>i \<in> set its. raises_only_Exception (op_store i)) \<longrightarrow>
        (\<forall>s' n' err. worker dur wid its s n = Some (s', n', err) \<longrightarrow> err = None))
   \<and> (\<not> stop_seen dur s i \<and> raises_only_Exception (op_store i) \<longrightarrow>
        (\<exists>r. perform_operation (op_store i) wid (op_start i) (op_now i) (op_now_exc i) = Inr r
           \<and> worker dur wid (i # its) s n = worker dur wid its (record_result s r) (n + 1)))
   \<and> ((\<forall>i \<in> set pre. \<not> stop_seen dur s i \<and> raises_only_Exception (op_store i))
       \<and> stop_seen dur s it \<longrightarrow>
        (\<exists>rs. length rs = length pre
           \<and> worker dur wid (pre @ it # rest) s n
               = Some (record_all s rs, n + length pre, None)
           \<and> total_operations (record_all s rs) = total_operations s + int (length pre)))"
proof (intro conjI impI)
  assume "raises_only_Exception st"
  then show "\<exists>r. perform_operation st wid start now now_exc = Inr r
         \<and> (fetchval st = Returns None \<longrightarrow> \<not> success r)
         \<and> (fetchrow st = Returns None \<longrightarrow> \<not> success r)
         \<and> (some_call_raises st \<longrightarrow> \<not> success r)"
    by (rule perform_operation_ordinary)
next
  assume "\<forall>i \<in> set its. raises_only_Exception (op_store i)"
  then show "\<forall>s' n' err. worker dur wid its s n = Some (s', n', err) \<longrightarrow> err = None"
    using worker_never_errors [of its dur wid s n] by blast
next
  assume a: "\<not> stop_seen dur s i \<and> raises_only_Exception (op_store i)"
  then obtain r where r:
    "perform_operation (op_store i) wid (op_start i) (op_now i) (op_now_exc i) = Inr r"
    using perform_operation_ordinary [of "op_store i"] by blast
  from a have "seen_running i \<and> seen_now i < start_time s + real_of_int dur"
    by (auto simp add: stop_seen_def)
  with r have "worker dur wid (i # its) s n = worker dur wid its (record_result s r) (n + 1)"
    by simp
  with r show "\<exists>r. perform_operation (op_store i) wid (op_start i) (op_now i) (op_now_exc i)
        = Inr r
      \<and> worker dur wid (i # its) s n = worker dur wid its (record_result s r) (n + 1)"
    by blast
next
  assume a: "(\<forall>i \<in> set pre. \<not> stop_seen dur s i \<and> raises_only_Exception (op_store i))
       \<and> stop_seen dur s it"
  then obtain rs where rs:
    "map (\<lambda>i. perform_operation (op_store i) wid (op_start i) (op_now i) (op_now_exc i)) pre
       = map Inr rs"
    using ordinary_results [of pre wid] by blast
  then have len: "length rs = length pre" by (metis length_map)
  from a rs have "worker dur wid (pre @ it # rest) s n
               = Some (record_all s rs, n + length pre, None)"
    by (intro worker_run) simp_all
  with len show "\<exists>rs. length rs = length pre
           \<and> worker dur wid (pre @ it # rest) s n
               = Some (record_all s rs, n + length pre, None)
           \<and> total_operations (record_all s rs) = total_operations s + int (length pre)"
    by (auto simp add: counters_record_all)
qed

theorem C4_attempt_failures_contained_witness:
  "(\<exists>r. perform_operation store_failing 0 1 2 3 = Inr r \<and> \<not> success r)
   \<and> (\<exists>s'. worker 60 0 [pass_at True 1 store_failing, pass_at True 2 store_ok,
                          pass_at False 3 store_ok] init_tester 0 = Some (s', 2, None)
          \<and> total_operations s' = 2)"
proof -
  let ?pre = "[pass_at True 1 store_failing, pass_at True 2 store_ok]"
  let ?it = "pass_at False 3 store_ok"
  have h: "(\<forall>i \<in> set ?pre. \<not> stop_seen 60 init_tester i \<and> raises_only_Exception (op_store i))
           \<and> stop_seen 60 init_tester ?it"
    by (simp add: stop_seen_def pass_at_def init_tester_def sample_stores)
  note t = C4_attempt_failures_contained [where st = store_failing and wid = 0 and start = 1
      and now = 2 and now_exc = 3 and pre = ?pre and dur = 60 and s = init_tester
      and it = ?it and rest = "[]" and n = 0]
  from t sample_stores have p: "\<exists>r. perform_operation store_failing 0 1 2 3 = Inr r \<and> \<not> success r"
    by blast
  from t h obtain rs where rs: "length rs = length ?pre"
    "worker 60 0 (?pre @ [?it]) init_tester 0 = Some (record_all init_tester rs, 0 + length ?pre, None)"
    "total_operations (record_all init_tester rs) = total_operations init_tester + int (length ?pre)"
    by blast
  have "worker 60 0 [pass_at True 1 store_failing, pass_at True 2 store_ok,
                          pass_at False 3 store_ok] init_tester 0
          = Some (record_all init_tester rs, 2, None)"
    using rs(2) by (simp del: worker.simps)
  moreover have "total_operations (record_all init_tester rs) = 2"
    using rs(3) by (simp add: init_tester_def)
  ultimately show ?thesis using p by blast
qed

text \<open>
  C7: the worker tests the stop condition before every attempt. At the first pass that
  observes it, the worker returns without another attempt: the result does not depend on
  anything after that pass, the operation count has grown by the number of passes before
  it, and exactly the attempts of those passes have been recorded, in order.
\<close>

theorem C7_worker_stops:
  "((\<forall>i \<in> set pre. \<not> stop_seen dur s i) \<and> stop_seen dur s it \<longrightarrow>
      worker dur wid (pre @ it # rest) s n = worker dur wid (pre @ [it]) s n
      \<and> worker dur wid (pre @ it # rest) s n \<noteq> None)
   \<and> ((\<forall>i \<in> set pre. \<not> stop_seen dur s i \<and> raises_only_Exception (op_store i))
       \<and> stop_seen dur s it \<longrightarrow>
      (\<exists>rs. map (\<lambda>i. perform_operation (op_store i) wid (op_start i) (op_now i) (op_now_exc i))
              pre = map Inr rs
           \<and> worker dur wid (pre @ it # rest) s n
               = Some (record_all s rs, n + length pre, None)))"
proof (intro conjI impI)
  assume "(\<forall>i \<in> set pre. \<not> stop_seen dur s i) \<and> stop_seen dur s it"
  then show "worker dur wid (pre @ it # rest) s n = worker dur wid (pre @ [it]) s n"
    and "worker dur wid (pre @ it # rest) s n \<noteq> None"
    using worker_stops_any [of pre dur s it wid rest n] by blast+
next
  assume a: "(\<forall>i \<in> set pre. \<not> stop_seen dur s i \<and> raises_only_Exception (op_store i))
       \<and> stop_seen dur s it"
  then obtain rs where rs:
    "map (\<lambda>i. perform_operation (op_store i) wid (op_start i) (op_now i) (op_now_exc i)) pre
       = map Inr rs"
    using ordinary_results [of pre wid] by blast
  with a have "worker dur wid (pre @ it # rest) s n
               = Some (record_all s rs, n + length pre, None)"
    by (intro worker_run) simp_all
  with rs show "\<exists>rs. map (\<lambda>i. perform_operation (op_store i) wid (op_start i) (op_now i)
        (op_now_exc i)) pre = map Inr rs
           \<and> worker dur wid (pre @ it # rest) s n
               = Some (record_all s rs, n + length pre, None)" by blast
qed

theorem C7_worker_stops_witness:
  "worker 60 0 [pass_at True 1 store_ok, pass_at True 60 store_ok, pass_at True 61 store_ok]
       init_tester 0
     = Some (record_all init_tester
               [\<lparr>success = True, duration = 1 / 100, timestamp = 1, worker_id = 0\<rparr>], 1, None)"
proof -
  let ?pre = "[pass_at True 1 store_ok]"
  have h: "(\<forall>i \<in> set ?pre. \<not> stop_seen 60 init_tester i \<and> raises_only_Exception (op_store i))
           \<and> stop_seen 60 init_tester (pass_at True 60 store_ok)"
    by (simp add: stop_seen_def pass_at_def init_tester_def sample_stores)
  have p: "perform_operation store_ok 0 1 (1 + 1 / 100) (1 + 1 / 100)
             = Inr \<lparr>success = True, duration = 1 / 100, timestamp = 1, worker_id = 0\<rparr>"
    by (simp add: store_ok_def perform_operation_def with_connection_def attempt_body_def)
  from C7_worker_stops [of ?pre 60 init_tester "pass_at True 60 store_ok" 0
      "[pass_at True 61 store_ok]" 0] h
  obtain rs where
    "map (\<lambda>i. perform_operation (op_store i) 0 (op_start i) (op_now i) (op_now_exc i)) ?pre
       = map Inr rs"
    "worker 60 0 (?pre @ pass_at True 60 store_ok # [pass_at True 61 store_ok]) init_tester 0
       = Some (record_all init_tester rs, 0 + length ?pre, None)"
    by blast
  with p show ?thesis by (auto simp add: pass_at_def)
qed


section \<open>The reporter's loop and the end of the run\<close>

lemma metrics_line_fields:
  "metrics_line s now = Inr l \<Longrightarrow>
     ml_total_operations l = total_operations s
     \<and> ml_success_rate l = (if total_operations s > 0
          then real_of_int (successful_operations s) / real_of_int (total_operations s) * 100
          else 0)
     \<and> ml_throughput l = (if now - start_time s > 0
          then real_of_int (total_operations s) / (now - start_time s) else 0)
     \<and> ml_elapsed l = now - start_time s
     \<and> reporter_latency (results s) = Inr (ml_avg_latency l, ml_p95_latency l)"
  by (auto simp add: metrics_line_def Let_def throughput_of_Inr success_rate_of_Inr
      split: sum.splits prod.splits)

lemma print_final_results_fields:
  "print_final_results s now = Inr fr \<Longrightarrow>
     fr_total_operations fr = total_operations s
     \<and> fr_successful_operations fr = successful_operations s
     \<and> fr_failed_operations fr = failed_operations s
     \<and> fr_success_rate fr = (if total_operations s > 0
          then real_of_int (successful_operations s) / real_of_int (total_operations s) * 100
          else 0)
     \<and> fr_throughput fr = (if now - start_time s > 0
          then real_of_int (total_operations s) / (now - start_time s) else 0)
     \<and> fr_elapsed fr = now - start_time s
     \<and> final_latency (results s) = Inr (fr_avg_latency fr, fr_min_latency fr, fr_max_latency fr,
          fr_p95_latency fr, fr_p99_latency fr)"
  by (auto simp add: print_final_results_def Let_def throughput_of_Inr success_rate_of_Inr
      split: sum.splits prod.splits)

lemma lines_exist:
  "\<exists>ls. map (\<lambda>u. metrics_line (tick_tester u) (tick_now u)) pre = map Inr ls"
proof (induction pre)
  case Nil
  then show ?case by simp
next
  case (Cons u pre)
  then obtain ls where
    "map (\<lambda>u. metrics_line (tick_tester u) (tick_now u)) pre = map Inr ls" by blast
  moreover obtain l where "metrics_line (tick_tester u) (tick_now u) = Inr l"
    using metrics_line_total by blast
  ultimately have
    "map (\<lambda>u. metrics_line (tick_tester u) (tick_now u)) (u # pre) = map Inr (l # ls)" by simp
  then show ?case by blast
qed

lemma reporter_run:
  "\<forall>u \<in> set pre. \<not> stop_flag_seen u \<Longrightarrow>
   map (\<lambda>u. metrics_line (tick_tester u) (tick_now u)) pre = map Inr ls \<Longrightarrow>
   stop_flag_seen t \<Longrightarrow>
   metrics_reporter (pre @ t # rest) printed = Some (printed @ ls, None)"
proof (induction pre arbitrary: printed ls)
  case Nil
  then show ?case by (auto simp add: stop_flag_seen_def)
next
  case (Cons u pre)
  from Cons.prems(2) obtain l ls' where ls: "ls = l # ls'"
    and l: "metrics_line (tick_tester u) (tick_now u) = Inr l"
    and rest: "map (\<lambda>u. metrics_line (tick_tester u) (tick_now u)) pre = map Inr ls'"
    by (cases ls) auto
  from Cons.prems(1) have go: "running_at_test u" "running_after_sleep u"
    by (auto simp add: stop_flag_seen_def)
  have "metrics_reporter (pre @ t # rest) (printed @ [l]) = Some ((printed @ [l]) @ ls', None)"
    using Cons.prems(1) Cons.prems(3) rest by (intro Cons.IH) simp_all
  with go l ls show ?case by simp
qed

text \<open>
  C8: at the first pass that observes the stop flag, at the loop test or after the sleep,
  the reporter returns without printing: the lines it has printed are those of the passes
  before, one each. The end of the run prints the final report after them, as the last
  item.
\<close>

theorem C8_reporter_stops:
  "(\<forall>u \<in> set pre. \<not> stop_flag_seen u) \<and> stop_flag_seen t \<longrightarrow>
     (\<exists>ls. map (\<lambda>u. metrics_line (tick_tester u) (tick_now u)) pre = map Inr ls
        \<and> metrics_reporter (pre @ t # rest) printed = Some (printed @ ls, None)
        \<and> (\<exists>fr. run_test_finally (pre @ t # rest) s now
                   = Some (map Metrics ls @ [Final fr], None)))"
proof
  assume a: "(\<forall>u \<in> set pre. \<not> stop_flag_seen u) \<and> stop_flag_seen t"
  obtain ls where ls: "map (\<lambda>u. metrics_line (tick_tester u) (tick_now u)) pre = map Inr ls"
    using lines_exist by blast
  have run: "metrics_reporter (pre @ t # rest) pr = Some (pr @ ls, None)" for pr
    using a ls by (intro reporter_run) simp_all
  obtain fr where "print_final_results s now = Inr fr"
    using print_final_results_total by blast
  with run [of "[]"] have "run_test_finally (pre @ t # rest) s now
      = Some (map Metrics ls @ [Final fr], None)"
    by (simp add: run_test_finally_def)
  with ls run [of printed] show "\<exists>ls. map (\<lambda>u. metrics_line (tick_tester u) (tick_now u)) pre = map Inr ls
        \<and> metrics_reporter (pre @ t # rest) printed = Some (printed @ ls, None)
        \<and> (\<exists>fr. run_test_finally (pre @ t # rest) s now
                   = Some (map Metrics ls @ [Final fr], None))" by blast
qed

theorem C8_reporter_stops_witness:
  "metrics_reporter [tick_at True True 10 init_tester, tick_at True False 20 init_tester,
       tick_at True True 30 init_tester] []
     = Some ([\<lparr>ml_total_operations = 0, ml_success_rate = 0, ml_throughput = 0,
               ml_avg_latency = 0, ml_p95_latency = 0, ml_elapsed = 10\<rparr>], None)"
proof -
  let ?pre = "[tick_at True True 10 init_tester]"
  let ?t = "tick_at True False 20 init_tester"
  have h: "(\<forall>u \<in> set ?pre. \<not> stop_flag_seen u) \<and> stop_flag_seen ?t"
    by (simp add: stop_flag_seen_def tick_at_def)
  have l: "metrics_line init_tester 10
             = Inr \<lparr>ml_total_operations = 0, ml_success_rate = 0, ml_throughput = 0,
                    ml_avg_latency = 0, ml_p95_latency = 0, ml_elapsed = 10\<rparr>"
    by (simp add: metrics_line_def init_tester_def throughput_of_Inr success_rate_of_Inr
        reporter_latency_def)
  from C8_reporter_stops [of ?pre ?t "[tick_at True True 30 init_tester]" "[]" init_tester 40] h
  obtain ls where
    "map (\<lambda>u. metrics_line (tick_tester u) (tick_now u)) ?pre = map Inr ls"
    "metrics_reporter (?pre @ ?t # [tick_at True True 30 init_tester]) [] = Some ([] @ ls, None)"
    by blast
  with l show ?thesis by (auto simp add: tick_at_def)
qed


section \<open>A store without keys\<close>

lemma no_keys_results:
  "\<forall>i \<in> set pre. no_keys (op_store i) \<Longrightarrow>
   map (\<lambda>i. perform_operation (op_store i) wid (op_start i) (op_now i) (op_now_exc i)) pre
     = map Inr (map (\<lambda>i. \<lparr>success = False, duration = op_now i - op_start i,
                            timestamp = op_start i, worker_id = wid\<rparr>) pre)"
  by (induction pre) (simp_all add: perform_operation_no_keys)

text \<open>
  C6: on a store without keys an attempt returns an outcome with \<open>success = False\<close>,
  timed at the return of line 209, and raises nothing. A worker that meets only such a
  store ends without an error; each of its attempts has added one to the total and to the
  failures and none to the successes; and when no success was counted before, the success
  rate of the reporter's line and of the final report is 0.
\<close>

theorem C6_no_keys:
  "(no_keys st \<longrightarrow> perform_operation st wid start now now_exc
      = Inr \<lparr>success = False, duration = now - start, timestamp = start, worker_id = wid\<rparr>)
   \<and> ((\<forall>i \<in> set pre. \<not> stop_seen dur s i \<and> no_keys (op_store i)) \<and> stop_seen dur s it \<longrightarrow>
       (\<exists>s'. worker dur wid (pre @ it # rest) s 0 = Some (s', length pre, None)
          \<and> total_operations s' = total_operations s + int (length pre)
          \<and> failed_operations s' = failed_operations s + int (length pre)
          \<and> successful_operations s' = successful_operations s
          \<and> (successful_operations s = 0 \<longrightarrow>
               (\<exists>l. metrics_line s' t = Inr l \<and> ml_success_rate l = 0)
               \<and> (\<exists>fr. print_final_results s' t = Inr fr \<and> fr_success_rate fr = 0))))"
proof (intro conjI impI)
  assume "no_keys st"
  then show "perform_operation st wid start now now_exc
      = Inr \<lparr>success = False, duration = now - start, timestamp = start, worker_id = wid\<rparr>"
    by (rule perform_operation_no_keys)
next
  assume a: "(\<forall>i \<in> set pre. \<not> stop_seen dur s i \<and> no_keys (op_store i)) \<and> stop_seen dur s it"
  let ?rs = "map (\<lambda>i. \<lparr>success = False, duration = op_now i - op_start i,
                            timestamp = op_start i, worker_id = wid\<rparr>) pre"
  let ?s' = "record_all s ?rs"
  have nosucc: "filter success ?rs = []" "filter (\<lambda>r. \<not> success r) ?rs = ?rs"
    by (simp_all add: filter_map comp_def)
  have w: "worker dur wid (pre @ it # rest) s 0 = Some (?s', 0 + length pre, None)"
    using a no_keys_results [of pre wid] by (intro worker_run) simp_all
  have c: "total_operations ?s' = total_operations s + int (length pre)"
    "failed_operations ?s' = failed_operations s + int (length pre)"
    "successful_operations ?s' = successful_operations s"
    by (simp_all add: counters_record_all nosucc)
  obtain l where l: "metrics_line ?s' t = Inr l" using metrics_line_total by blast
  obtain fr where fr: "print_final_results ?s' t = Inr fr"
    using print_final_results_total by blast
  have z: "successful_operations s = 0 \<longrightarrow>
               (\<exists>l. metrics_line ?s' t = Inr l \<and> ml_success_rate l = 0)
               \<and> (\<exists>fr. print_final_results ?s' t = Inr fr \<and> fr_success_rate fr = 0)"
    using l fr metrics_line_fields [OF l] print_final_results_fields [OF fr] c by simp
  from w c z show "\<exists>s'. worker dur wid (pre @ it # rest) s 0 = Some (s', length pre, None)
          \<and> total_operations s' = total_operations s + int (length pre)
          \<and> failed_operations s' = failed_operations s + int (length pre)
          \<and> successful_operations s' = successful_operations s
          \<and> (successful_operations s = 0 \<longrightarrow>
               (\<exists>l. metrics_line s' t = Inr l \<and> ml_success_rate l = 0)
               \<and> (\<exists>fr. print_final_results s' t = Inr fr \<and> fr_success_rate fr = 0))"
    by (intro exI [of _ ?s']) simp
qed

theorem C6_no_keys_witness:
  "perform_operation store_empty 0 1 2 3
     = Inr \<lparr>success = False, duration = 1, timestamp = 1, worker_id = 0\<rparr>
   \<and> (\<exists>s'. worker 60 0 [pass_at True 1 store_empty, pass_at True 2 store_empty,
                          pass_at False 3 store_empty] init_tester 0 = Some (s', 2, None)
          \<and> total_operations s' = 2 \<and> failed_operations s' = 2
          \<and> successful_operations s' = 0
          \<and> (\<exists>fr. print_final_results s' 10 = Inr fr \<and> fr_success_rate fr = 0))"
proof -
  let ?pre = "[pass_at True 1 store_empty, pass_at True 2 store_empty]"
  let ?it = "pass_at False 3 store_empty"
  have h: "(\<forall>i \<in> set ?pre. \<not> stop_seen 60 init_tester i \<and> no_keys (op_store i))
           \<and> stop_seen 60 init_tester ?it"
    by (simp add: stop_seen_def pass_at_def init_tester_def sample_stores)
  have z: "successful_operations init_tester = 0" "total_operations init_tester = 0"
    "failed_operations init_tester = 0"
    by (simp_all add: init_tester_def)
  have p: "perform_operation store_empty 0 1 2 3
     = Inr \<lparr>success = False, duration = 1, timestamp = 1, worker_id = 0\<rparr>"
    by (simp add: store_empty_def store_ok_def perform_operation_def with_connection_def
        attempt_body_def)
  from C6_no_keys [where pre = ?pre and dur = 60 and s = init_tester and it = ?it
      and rest = "[]" and wid = 0 and t = 10] h z
  obtain s' where s':
    "worker 60 0 (?pre @ [?it]) init_tester 0 = Some (s', length ?pre, None)"
    "total_operations s' = total_operations init_tester + int (length ?pre)"
    "failed_operations s' = failed_operations init_tester + int (length ?pre)"
    "successful_operations s' = successful_operations init_tester"
    "\<exists>fr. print_final_results s' 10 = Inr fr \<and> fr_success_rate fr = 0"
    by blast
  have "worker 60 0 [pass_at True 1 store_empty, pass_at True 2 store_empty,
                          pass_at False 3 store_empty] init_tester 0 = Some (s', 2, None)"
    using s'(1) by (simp del: worker.simps)
  moreover have "total_operations s' = 2" "failed_operations s' = 2"
    "successful_operations s' = 0"
    using s'(2,3,4) z by simp_all
  ultimately show ?thesis using p s'(5) by blast
qed


section \<open>Which outcomes the statistics cover\<close>










section \<open>What the final report covers\<close>


lemma final_latency_replicate:
  "final_latency (replicate 1000 \<lparr>success = b, duration = 1 / 1000, timestamp = t, worker_id = w\<rparr>)
     = Inr (1, 1, 1, 1, 1)"
proof -
  let ?r = "\<lparr>success = b, duration = 1 / 1000, timestamp = t, worker_id = w\<rparr>"
  have l: "latencies_of (replicate 1000 ?r) = replicate 1000 1"
    by (simp add: latencies_of_def)
  have srt: "sort (replicate 1000 (1::real)) = replicate 1000 1"
    by (simp add: sort_key_id_if_sorted)
  have c95: "cut_point (replicate 1000 1) 20 19 = 1"
    by (simp add: cut_point_def Let_def)
  have c99: "cut_point (replicate 1000 1) 100 99 = 1"
    by (simp add: cut_point_def Let_def)
  have ne: "replicate 1000 ?r \<noteq> []" by simp
  show ?thesis
    by (simp add: final_latency_Inr [OF ne] l srt c95 c99 sum_list_replicate)
qed

lemma long_run_facts:
  "length long_run = 1001"
  "drop (length long_run - 1000) long_run
     = replicate 1000 \<lparr>success = True, duration = 1 / 1000, timestamp = 5, worker_id = 0\<rparr>"
  "length (filter success long_run) = 1000"
  "length (filter (\<lambda>r. \<not> success r) long_run) = 1"
  "latencies_of long_run = 5000 # replicate 1000 1"
  by (simp_all add: long_run_def latencies_of_def)

lemma record_all_long_run:
  "results (record_all init_tester long_run)
     = replicate 1000 \<lparr>success = True, duration = 1 / 1000, timestamp = 5, worker_id = 0\<rparr>"
  "total_operations (record_all init_tester long_run) = 1001"
  "successful_operations (record_all init_tester long_run) = 1000"
  "failed_operations (record_all init_tester long_run) = 1"
  "start_time (record_all init_tester long_run) = 0"
proof -
  show "results (record_all init_tester long_run)
     = replicate 1000 \<lparr>success = True, duration = 1 / 1000, timestamp = 5, worker_id = 0\<rparr>"
    using long_run_facts(2) by (simp only: results_record_all)
  show "total_operations (record_all init_tester long_run) = 1001"
    by (simp add: counters_record_all long_run_facts init_tester_def)
  show "successful_operations (record_all init_tester long_run) = 1000"
    by (simp add: counters_record_all long_run_facts init_tester_def)
  show "failed_operations (record_all init_tester long_run) = 1"
    by (simp add: counters_record_all long_run_facts init_tester_def)
  show "start_time (record_all init_tester long_run) = 0"
    by (simp add: start_time_record_all init_tester_def)
qed

text \<open>
  C5, as the claim states it, fails: after the 1001 attempts of \<open>long_run\<close> the buffer
  holds the last thousand only, so the final report's maximum and mean latency are 1 ms
  while those of the whole run are 5000 ms and 6000/1001 ms; and the reported success
  rate, 100000/1001, is that of the counters, while every entry of the buffer is a
  success.
\<close>

theorem C5_full_run_counterexample:
  "print_final_results (record_all init_tester long_run) 10
     = Inr \<lparr>fr_total_operations = 1001, fr_successful_operations = 1000,
            fr_failed_operations = 1, fr_success_rate = 100000 / 1001,
            fr_throughput = 1001 / 10, fr_elapsed = 10, fr_avg_latency = 1,
            fr_min_latency = 1, fr_max_latency = 1, fr_p95_latency = 1,
            fr_p99_latency = 1\<rparr>
   \<and> py_max (latencies_of long_run) = Inr 5000
   \<and> mean (latencies_of long_run) = Inr (6000 / 1001)
   \<and> success_rate_of
        (int (length (filter success (results (record_all init_tester long_run)))))
        (int (length (results (record_all init_tester long_run)))) = Inr 100"
proof -
  have l: "latencies_of long_run = 5000 # replicate 1000 1"
    by (rule long_run_facts)
  have mx: "py_max (5000 # replicate 1000 1) = Inr (Max (set (5000 # replicate 1000 1)))"
    by (rule py_max_Inr) simp
  have "print_final_results (record_all init_tester long_run) 10
     = Inr \<lparr>fr_total_operations = 1001, fr_successful_operations = 1000,
            fr_failed_operations = 1, fr_success_rate = 100000 / 1001,
            fr_throughput = 1001 / 10, fr_elapsed = 10, fr_avg_latency = 1,
            fr_min_latency = 1, fr_max_latency = 1, fr_p95_latency = 1,
            fr_p99_latency = 1\<rparr>"
    by (simp add: print_final_results_def record_all_long_run final_latency_replicate
        throughput_of_Inr success_rate_of_Inr)
  moreover have "py_max (latencies_of long_run) = Inr 5000"
    by (simp add: l mx del: py_max.simps)
  moreover have "mean (latencies_of long_run) = Inr (6000 / 1001)"
    by (simp add: l mean_Inr sum_list_replicate)
  moreover have "success_rate_of
        (int (length (filter success (results (record_all init_tester long_run)))))
        (int (length (results (record_all init_tester long_run)))) = Inr 100"
    by (simp add: record_all_long_run success_rate_of_Inr)
  ultimately show ?thesis by blast
qed

lemma final_report_over_buffer:
  "results s = [] \<and> total_operations s = 0 \<and> successful_operations s = 0 \<longrightarrow>
     (\<exists>fr. print_final_results (record_all s rs) now = Inr fr
        \<and> final_latency (drop (length rs - 1000) rs)
            = Inr (fr_avg_latency fr, fr_min_latency fr, fr_max_latency fr,
                   fr_p95_latency fr, fr_p99_latency fr)
        \<and> (rs \<noteq> [] \<longrightarrow>
             fr_avg_latency fr
               = sum_list (map (\<lambda>r. duration r * 1000) (drop (length rs - 1000) rs))
                   / real (length (drop (length rs - 1000) rs))
             \<and> fr_min_latency fr
                 = Min (set (map (\<lambda>r. duration r * 1000) (drop (length rs - 1000) rs)))
             \<and> fr_max_latency fr
                 = Max (set (map (\<lambda>r. duration r * 1000) (drop (length rs - 1000) rs)))
             \<and> fr_p95_latency fr
                 = (if 1 < length (drop (length rs - 1000) rs)
                    then cut_point
                           (sort (map (\<lambda>r. duration r * 1000) (drop (length rs - 1000) rs)))
                           20 19
                    else fr_avg_latency fr)
             \<and> fr_p99_latency fr
                 = (if 1 < length (drop (length rs - 1000) rs)
                    then cut_point
                           (sort (map (\<lambda>r. duration r * 1000) (drop (length rs - 1000) rs)))
                           100 99
                    else fr_avg_latency fr))
        \<and> (rs = [] \<longrightarrow>
             fr_avg_latency fr = 0 \<and> fr_min_latency fr = 0 \<and> fr_max_latency fr = 0
             \<and> fr_p95_latency fr = 0 \<and> fr_p99_latency fr = 0)
        \<and> fr_total_operations fr = int (length rs)
        \<and> fr_success_rate fr
            = (if rs = [] then 0
               else real (length (filter success rs)) / real (length rs) * 100)
        \<and> fr_throughput fr
            = (if now - start_time s > 0 then real (length rs) / (now - start_time s) else 0))"
proof
  assume a: "results s = [] \<and> total_operations s = 0 \<and> successful_operations s = 0"
  let ?kept = "drop (length rs - 1000) rs"
  let ?L = "map (\<lambda>r. duration r * 1000) ?kept"
  obtain fr where fr: "print_final_results (record_all s rs) now = Inr fr"
    using print_final_results_total by blast
  note f = print_final_results_fields [OF fr]
  have res: "results (record_all s rs) = ?kept"
    using a by (simp add: results_record_all_fresh)
  have lat: "final_latency ?kept = Inr (fr_avg_latency fr, fr_min_latency fr, fr_max_latency fr,
                   fr_p95_latency fr, fr_p99_latency fr)"
    using f res by simp
  have ne: "rs \<noteq> [] \<Longrightarrow> ?kept \<noteq> []" by (cases rs) simp_all
  have stats: "rs \<noteq> [] \<longrightarrow>
             fr_avg_latency fr = sum_list ?L / real (length ?kept)
             \<and> fr_min_latency fr = Min (set ?L)
             \<and> fr_max_latency fr = Max (set ?L)
             \<and> fr_p95_latency fr
                 = (if 1 < length ?kept then cut_point (sort ?L) 20 19 else fr_avg_latency fr)
             \<and> fr_p99_latency fr
                 = (if 1 < length ?kept then cut_point (sort ?L) 100 99 else fr_avg_latency fr)"
  proof
    assume "rs \<noteq> []"
    then have "?kept \<noteq> []" by (rule ne)
    from final_latency_explicit [OF this] lat
    have "Inr (fr_avg_latency fr, fr_min_latency fr, fr_max_latency fr,
               fr_p95_latency fr, fr_p99_latency fr)
          = (Inr (sum_list ?L / real (length ?kept), Min (set ?L), Max (set ?L),
               (if length ?kept > 1 then cut_point (sort ?L) 20 19
                else sum_list ?L / real (length ?kept)),
               (if length ?kept > 1 then cut_point (sort ?L) 100 99
                else sum_list ?L / real (length ?kept)))
             :: py_error + real \<times> real \<times> real \<times> real \<times> real)"
      by (simp only:)
    then show "fr_avg_latency fr = sum_list ?L / real (length ?kept)
             \<and> fr_min_latency fr = Min (set ?L)
             \<and> fr_max_latency fr = Max (set ?L)
             \<and> fr_p95_latency fr
                 = (if 1 < length ?kept then cut_point (sort ?L) 20 19 else fr_avg_latency fr)
             \<and> fr_p99_latency fr
                 = (if 1 < length ?kept then cut_point (sort ?L) 100 99 else fr_avg_latency fr)"
      by (simp only: sum.inject prod.inject)
  qed
  have empty: "rs = [] \<longrightarrow>
             fr_avg_latency fr = 0 \<and> fr_min_latency fr = 0 \<and> fr_max_latency fr = 0
             \<and> fr_p95_latency fr = 0 \<and> fr_p99_latency fr = 0"
    using lat by (auto simp add: final_latency_def)
  have tot: "fr_total_operations fr = int (length rs)"
    using f a by (simp add: counters_record_all)
  have sr: "fr_success_rate fr
            = (if rs = [] then 0
               else real (length (filter success rs)) / real (length rs) * 100)"
    using f a by (simp add: counters_record_all)
  have tp: "fr_throughput fr
            = (if now - start_time s > 0 then real (length rs) / (now - start_time s) else 0)"
    using f a by (simp add: counters_record_all start_time_record_all)
  from fr lat stats empty tot sr tp
  show "\<exists>fr. print_final_results (record_all s rs) now = Inr fr
        \<and> final_latency ?kept
            = Inr (fr_avg_latency fr, fr_min_latency fr, fr_max_latency fr,
                   fr_p95_latency fr, fr_p99_latency fr)
        \<and> (rs \<noteq> [] \<longrightarrow>
             fr_avg_latency fr = sum_list ?L / real (length ?kept)
             \<and> fr_min_latency fr = Min (set ?L)
             \<and> fr_max_latency fr = Max (set ?L)
             \<and> fr_p95_latency fr
                 = (if 1 < length ?kept then cut_point (sort ?L) 20 19 else fr_avg_latency fr)
             \<and> fr_p99_latency fr
                 = (if 1 < length ?kept then cut_point (sort ?L) 100 99 else fr_avg_latency fr))
        \<and> (rs = [] \<longrightarrow>
             fr_avg_latency fr = 0 \<and> fr_min_latency fr = 0 \<and> fr_max_latency fr = 0
             \<and> fr_p95_latency fr = 0 \<and> fr_p99_latency fr = 0)
        \<and> fr_total_operations fr = int (length rs)
        \<and> fr_success_rate fr
            = (if rs = [] then 0
               else real (length (filter success rs)) / real (length rs) * 100)
        \<and> fr_throughput fr
            = (if now - start_time s > 0 then real (length rs) / (now - start_time s) else 0)"
    by blast
qed

text \<open>
  C5, amended: in a run that starts with an empty buffer and zero counters, the latency
  statistics of the final report (mean, minimum, maximum, 95th and 99th percentile) are
  taken over all entries of the buffer, which holds the last \<open>min (length rs) 1000\<close>
  recorded outcomes; the total, the success rate and the throughput come from the
  counters, which count every attempt of the run. The percentiles are the 19th of 20 and
  the 99th of 100 cut points, interpolated between neighbouring sorted latencies.
\<close>

theorem C5_final_report_sources:
  "(results s = [] \<and> total_operations s = 0 \<and> successful_operations s = 0 \<longrightarrow>
     (\<exists>fr. print_final_results (record_all s rs) now = Inr fr
        \<and> final_latency (drop (length rs - 1000) rs)
            = Inr (fr_avg_latency fr, fr_min_latency fr, fr_max_latency fr,
                   fr_p95_latency fr, fr_p99_latency fr)
        \<and> (rs \<noteq> [] \<longrightarrow>
             fr_avg_latency fr
               = sum_list (map (\<lambda>r. duration r * 1000) (drop (length rs - 1000) rs))
                   / real (length (drop (length rs - 1000) rs))
             \<and> fr_min_latency fr
                 = Min (set (map (\<lambda>r. duration r * 1000) (drop (length rs - 1000) rs)))
             \<and> fr_max_latency fr
                 = Max (set (map (\<lambda>r. duration r * 1000) (drop (length rs - 1000) rs)))
             \<and> fr_p95_latency fr
                 = (if 1 < length (drop (length rs - 1000) rs)
                    then cut_point
                           (sort (map (\<lambda>r. duration r * 1000) (drop (length rs - 1000) rs)))
                           20 19
                    else fr_avg_latency fr)
             \<and> fr_p99_latency fr
                 = (if 1 < length (drop (length rs - 1000) rs)
                    then cut_point
                           (sort (map (\<lambda>r. duration r * 1000) (drop (length rs - 1000) rs)))
                           100 99
                    else fr_avg_latency fr))
        \<and> (rs = [] \<longrightarrow>
             fr_avg_latency fr = 0 \<and> fr_min_latency fr = 0 \<and> fr_max_latency fr = 0
             \<and> fr_p95_latency fr = 0 \<and> fr_p99_latency fr = 0)
        \<and> fr_total_operations fr = int (length rs)
        \<and> fr_success_rate fr
            = (if rs = [] then 0
               else real (length (filter success rs)) / real (length rs) * 100)
        \<and> fr_throughput fr
            = (if now - start_time s > 0 then real (length rs) / (now - start_time s) else 0)))
   \<and> (1 < length ys \<longrightarrow>
      cut_point (sort ys) 20 19 =
        (let s = sort ys;
             ld = int (length ys);
             j = max 1 (min (ld - 1) (19 * (ld + 1) div 20));
             delta = 19 * (ld + 1) - j * 20
         in (s ! nat (j - 1) * real_of_int (20 - delta) + s ! nat j * real_of_int delta) / 20))
   \<and> (1 < length ys \<longrightarrow>
      cut_point (sort ys) 100 99 =
        (let s = sort ys;
             ld = int (length ys);
             j = max 1 (min (ld - 1) (99 * (ld + 1) div 100));
             delta = 99 * (ld + 1) - j * 100
         in (s ! nat (j - 1) * real_of_int (100 - delta) + s ! nat j * real_of_int delta)
              / 100))"
  by (rule conjI [OF final_report_over_buffer conjI [OF impI [OF cut_point_p95]
      impI [OF cut_point_p99]]])

theorem C5_final_report_sources_witness:
  "\<exists>fr. print_final_results (record_all init_tester long_run) 10 = Inr fr
     \<and> fr_max_latency fr = 1 \<and> fr_p95_latency fr = 1 \<and> fr_p99_latency fr = 1
     \<and> fr_total_operations fr = 1001 \<and> fr_success_rate fr = 100000 / 1001"
proof -
  have h: "results init_tester = [] \<and> total_operations init_tester = 0
           \<and> successful_operations init_tester = 0"
    by (simp add: init_tester_def)
  note k = long_run_facts(2)
  have n: "length long_run = 1001" "length (filter success long_run) = 1000" "long_run \<noteq> []"
    by (simp_all add: long_run_def)
  from C5_final_report_sources [where s = init_tester and rs = long_run and now = 10] h
  obtain fr where fr: "print_final_results (record_all init_tester long_run) 10 = Inr fr"
    "final_latency (drop (length long_run - 1000) long_run)
            = Inr (fr_avg_latency fr, fr_min_latency fr, fr_max_latency fr,
                   fr_p95_latency fr, fr_p99_latency fr)"
    "fr_total_operations fr = int (length long_run)"
    "fr_success_rate fr
            = (if long_run = [] then 0
               else real (length (filter success long_run)) / real (length long_run) * 100)"
    by blast
  from fr(2) have "fr_max_latency fr = 1 \<and> fr_p95_latency fr = 1 \<and> fr_p99_latency fr = 1"
    by (simp add: k final_latency_replicate)
  with fr(1,3,4) n show ?thesis by simp
qed


end
